theory Spec2Isabelle
  imports Main "HOL-Library.Sublist"
begin

section \<open>Values and exceptions\<close>

text \<open>
  A Python \<open>str\<close> is modelled as a \<open>string\<close>: the list of its code points, for the
  code points below 256. The values held by \<open>arguments_values\<close> are dynamically typed;
  \<open>pyval\<close> is the part of Python's universe that the parser can hold: \<open>None\<close>,
  strings, booleans, integers and lists of those.
\<close>

datatype pyval = PNone | PStr string | PBool bool | PInt int | PList "pyval list"

text \<open>
  Exceptions are values. \<open>RuntimeError\<close>, \<open>ValueError\<close> and \<open>TypeError\<close> carry their
  message, \<open>KeyError\<close> carries the key that was not found.
\<close>

datatype error = RuntimeError string | ValueError string | KeyError pyval | TypeError string

fun mapM :: "('a \<Rightarrow> error + 'b) \<Rightarrow> 'a list \<Rightarrow> error + 'b list" where
  "mapM f [] = Inr []"
| "mapM f (x # xs) =
     (case f x of
        Inl e \<Rightarrow> Inl e
      | Inr y \<Rightarrow> (case mapM f xs of Inl e \<Rightarrow> Inl e | Inr ys \<Rightarrow> Inr (y # ys)))"

section \<open>The lexer of Python's \<open>shlex\<close> module\<close>

text \<open>
  \<open>_split_list\<close> and \<open>_parse_tuple\<close> tokenize with the standard library's
  \<open>shlex.shlex\<close>. Its \<open>read_token\<close> is a character-driven state machine; the model
  follows it branch by branch. The attribute \<open>state\<close> of the lexer is one of
  \<open>None\<close> (past the end of the input), \<open>' '\<close> (between tokens), \<open>'a'\<close> (inside a
  word), a quote character (inside a quoted section) or the escape character.
  Both callers set \<open>whitespace_split = True\<close> and leave \<open>punctuation_chars\<close> empty;
  under these settings the tests on \<open>wordchars\<close> and on \<open>punctuation_chars\<close> select
  branches that do what the \<open>whitespace_split\<close> branch does, so \<open>wordchars\<close> is not
  part of the record, state \<open>'c'\<close> is never entered and nothing is pushed back.
\<close>

datatype lexstate = StNone | StSpace | StWord | StQuote char | StEscape char

record shlex =
  posix :: bool
  whitespace :: string
  commenters :: string

definition quotes :: string where
  "quotes = [CHR 0x27, CHR 0x22]"

definition escape :: string where
  "escape = [CHR 0x5C]"

definition escapedquotes :: string where
  "escapedquotes = [CHR 0x22]"

text \<open>\<open>instream.readline()\<close>: drops the rest of the line, its newline included.\<close>

definition readline :: "string \<Rightarrow> string" where
  "readline inp = drop 1 (dropWhile (\<lambda>c. c \<noteq> CHR 0x0A) inp)"

text \<open>
  The end of \<open>read_token\<close>: the token is returned, except that in POSIX mode an empty
  token that was never quoted is returned as \<open>None\<close>.
\<close>

definition emit :: "shlex \<Rightarrow> bool \<Rightarrow> string \<Rightarrow> lexstate \<Rightarrow> string
    \<Rightarrow> error + (string option \<times> lexstate \<times> string)" where
  "emit L quoted tok st rest =
     Inr (if posix L \<and> \<not> quoted \<and> tok = [] then None else Some tok, st, rest)"

lemma length_readline: "length (readline inp) \<le> length inp"
  using length_dropWhile_le [of "\<lambda>c. c \<noteq> CHR 0x0A" inp]
  unfolding readline_def by simp

text \<open>
  \<open>read_token L state escapedstate quoted token instream\<close> runs the loop of
  \<open>read_token\<close> from the given lexer state and local variables, and returns the
  token together with the state and the input left for the next call.
\<close>

function read_token :: "shlex \<Rightarrow> lexstate \<Rightarrow> lexstate \<Rightarrow> bool \<Rightarrow> string \<Rightarrow> string
    \<Rightarrow> error + (string option \<times> lexstate \<times> string)" where
  "read_token L StNone esc q tok inp = emit L q [] StNone (drop 1 inp)"
| "read_token L StSpace esc q tok [] = emit L q tok StNone []"
| "read_token L StSpace esc q tok (c # cs) =
     (if c \<in> set (whitespace L) then
        (if tok \<noteq> [] \<or> (posix L \<and> q) then emit L q tok StSpace cs
         else read_token L StSpace esc q tok cs)
      else if c \<in> set (commenters L) then read_token L StSpace esc q tok (readline cs)
      else if posix L \<and> c \<in> set escape then read_token L (StEscape c) StWord q tok cs
      else if c \<in> set quotes then
        read_token L (StQuote c) esc q (if posix L then tok else [c]) cs
      else read_token L StWord esc q [c] cs)"
| "read_token L (StQuote s) esc q tok [] = Inl (ValueError ''No closing quotation'')"
| "read_token L (StQuote s) esc q tok (c # cs) =
     (if c = s then
        (if \<not> posix L then emit L True (tok @ [c]) StSpace cs
         else read_token L StWord esc True tok cs)
      else if posix L \<and> c \<in> set escape \<and> s \<in> set escapedquotes then
        read_token L (StEscape c) (StQuote s) True tok cs
      else read_token L (StQuote s) esc True (tok @ [c]) cs)"
| "read_token L (StEscape e) esc q tok [] = Inl (ValueError ''No escaped character'')"
| "read_token L (StEscape e) esc q tok (c # cs) =
     read_token L esc esc q
       ((case esc of
           StQuote s \<Rightarrow> if c \<noteq> e \<and> c \<noteq> s then tok @ [e] else tok
         | _ \<Rightarrow> tok) @ [c]) cs"
| "read_token L StWord esc q tok [] = emit L q tok StNone []"
| "read_token L StWord esc q tok (c # cs) =
     (if c \<in> set (whitespace L) then
        (if tok \<noteq> [] \<or> (posix L \<and> q) then emit L q tok StSpace cs
         else read_token L StSpace esc q tok cs)
      else if c \<in> set (commenters L) then
        (if posix L then
           (if tok \<noteq> [] \<or> (posix L \<and> q) then emit L q tok StSpace (readline cs)
            else read_token L StSpace esc q tok (readline cs))
         else read_token L StWord esc q tok (readline cs))
      else if posix L \<and> c \<in> set quotes then read_token L (StQuote c) esc q tok cs
      else if posix L \<and> c \<in> set escape then read_token L (StEscape c) StWord q tok cs
      else read_token L StWord esc q (tok @ [c]) cs)"
  by pat_completeness auto
termination
  by (relation "measure (\<lambda>(L, st, esc, q, tok, inp). length inp)")
     (auto simp: le_imp_less_Suc length_readline)

lemma read_token_length:
  "read_token L st esc q tok inp = Inr (r, st', rest) \<Longrightarrow> length rest \<le> length inp"
proof (induction L st esc q tok inp rule: read_token.induct)
  case (3 L esc q tok c cs)
  then show ?case
    by (auto simp: emit_def split: if_splits
             intro: le_SucI order_trans [OF _ le_SucI [OF length_readline]])
next
  case (9 L esc q tok c cs)
  then show ?case
    by (auto simp: emit_def split: if_splits
             intro: le_SucI order_trans [OF _ le_SucI [OF length_readline]])
qed (auto simp: emit_def split: if_splits intro: le_SucI)

lemma read_token_consumes:
  "read_token L st esc q tok (c # cs) = Inr (r, st', rest) \<Longrightarrow> length rest \<le> length cs"
  by (cases st)
     (auto simp: emit_def split: if_splits dest!: read_token_length
           intro: order_trans [OF _ length_readline])

lemma read_token_eof:
  "read_token L st StSpace False [] [] = Inr (Some t, st', rest) \<Longrightarrow> \<not> posix L \<and> t = []"
  by (cases st) (auto simp: emit_def split: if_splits)

text \<open>
  \<open>list(lexer)\<close>: \<open>__next__\<close> calls \<open>get_token\<close>, which (with nothing pushed back and
  no file stack) is \<open>read_token\<close>, and stops at the first token equal to \<open>eof\<close>, which
  is \<open>None\<close> in POSIX mode and the empty string otherwise.
\<close>

function shlex_tokens :: "shlex \<Rightarrow> lexstate \<Rightarrow> string \<Rightarrow> error + string list" where
  "shlex_tokens L st inp =
     (case read_token L st StSpace False [] inp of
        Inl e \<Rightarrow> Inl e
      | Inr (None, st', rest) \<Rightarrow> Inr []
      | Inr (Some t, st', rest) \<Rightarrow>
          (if \<not> posix L \<and> t = [] then Inr []
           else (case shlex_tokens L st' rest of
                   Inl e \<Rightarrow> Inl e
                 | Inr ts \<Rightarrow> Inr (t # ts))))"
  by pat_completeness auto
termination
  apply (relation "measure (\<lambda>(L, st, inp). length inp)")
   apply simp
  subgoal for L st inp x2 x1 x2a x2b st' rest
    by (cases inp) (auto dest: read_token_eof read_token_consumes)
  done

declare shlex_tokens.simps [simp del]

text \<open>
  \<open>shlex.split(s)\<close>: a POSIX-mode lexer with the default whitespace (space, tab,
  carriage return, newline), \<open>whitespace_split = True\<close> and no comment character.
\<close>

definition shlex_split :: "string \<Rightarrow> error + string list" where
  "shlex_split s =
     shlex_tokens \<lparr>posix = True, whitespace = [CHR 0x20, CHR 0x09, CHR 0x0D, CHR 0x0A],
                   commenters = []\<rparr> StSpace s"

section \<open>String methods\<close>

text \<open>\<open>s.find(sub)\<close>: the lowest index at which \<open>sub\<close> occurs in \<open>s\<close>, or \<open>-1\<close>.\<close>

fun find_from :: "nat \<Rightarrow> string \<Rightarrow> string \<Rightarrow> int" where
  "find_from i sub [] = (if sub = [] then int i else - 1)"
| "find_from i sub (c # cs) =
     (if prefix sub (c # cs) then int i else find_from (Suc i) sub cs)"

definition str_find :: "string \<Rightarrow> string \<Rightarrow> int" where
  "str_find s sub = find_from 0 sub s"

text \<open>\<open>s.replace(old, new, 1)\<close>: the leftmost occurrence of \<open>old\<close> replaced by \<open>new\<close>.\<close>

fun replace1 :: "string \<Rightarrow> string \<Rightarrow> string \<Rightarrow> string" where
  "replace1 old new [] = (if old = [] then new else [])"
| "replace1 old new (c # cs) =
     (if prefix old (c # cs) then new @ drop (length old) (c # cs)
      else c # replace1 old new cs)"

text \<open>\<open>s.split(sep)\<close> for a one-character separator: empty fields are kept.\<close>

fun split_acc :: "char \<Rightarrow> string \<Rightarrow> string \<Rightarrow> string list" where
  "split_acc sep cur [] = [rev cur]"
| "split_acc sep cur (c # cs) =
     (if c = sep then rev cur # split_acc sep [] cs else split_acc sep (c # cur) cs)"

definition str_split :: "string \<Rightarrow> char \<Rightarrow> string list" where
  "str_split s sep = split_acc sep [] s"

text \<open>
  \<open>s.strip()\<close> removes leading and trailing characters for which \<open>isspace()\<close> holds:
  below 256 these are the code points 9 to 13, 28 to 32, 133 and 160.
\<close>

definition isspace :: "char \<Rightarrow> bool" where
  "isspace c =
     (let n = (of_char c :: nat)
      in (9 \<le> n \<and> n \<le> 13) \<or> (28 \<le> n \<and> n \<le> 32) \<or> n = 133 \<or> n = 160)"

definition strip :: "string \<Rightarrow> string" where
  "strip s = rev (dropWhile isspace (rev (dropWhile isspace s)))"

text \<open>The decimal digits of a natural number, as \<open>str(n)\<close> and f-strings print them.\<close>

fun str_of_nat :: "nat \<Rightarrow> string" where
  "str_of_nat n =
     (if n < 10 then [''0123456789'' ! n]
      else str_of_nat (n div 10) @ [''0123456789'' ! (n mod 10)])"

declare str_of_nat.simps [simp del]

definition squote :: "string \<Rightarrow> string" where
  "squote s = [CHR 0x27] @ s @ [CHR 0x27]"

definition str_of_int :: "int \<Rightarrow> string" where
  "str_of_int i = (if i < 0 then ''-'' @ str_of_nat (nat (- i)) else str_of_nat (nat i))"

section \<open>The doubled-delimiter loop of \<open>_split_list\<close>\<close>

text \<open>The number of positions at which two adjacent semicolons start.\<close>

fun dd_pairs :: "string \<Rightarrow> nat" where
  "dd_pairs (a # b # cs) =
     (if a = CHR '';'' \<and> b = CHR '';'' then 1 else 0) + dd_pairs (b # cs)"
| "dd_pairs cs = 0"

lemma replace1_dd_Nil [simp]: "replace1 '';;'' ''; ;'' s = [] \<longleftrightarrow> s = []"
  by (cases s) auto

lemma hd_replace1_dd: "hd (replace1 '';;'' ''; ;'' s) = hd s"
  by (cases s) auto

lemma dd_pairs_Cons:
  "dd_pairs (a # s) =
     (if s \<noteq> [] \<and> a = CHR '';'' \<and> hd s = CHR '';'' then 1 else 0) + dd_pairs s"
  by (cases s) auto

lemma find_from_none: "find_from i '';;'' s = - 1 \<longleftrightarrow> dd_pairs s = 0"
proof (induction s arbitrary: i)
  case Nil
  then show ?case by simp
next
  case (Cons a s)
  then show ?case by (cases s) auto
qed

lemma dd_pairs_replace1:
  "dd_pairs s \<noteq> 0 \<Longrightarrow> Suc (dd_pairs (replace1 '';;'' ''; ;'' s)) = dd_pairs s"
proof (induction s)
  case Nil
  then show ?case by simp
next
  case (Cons a s)
  show ?case
  proof (cases "prefix '';;'' (a # s)")
    case True
    then obtain t where "a # s = '';;'' @ t"
      by (auto simp: prefix_def)
    then show ?thesis
      by (cases t) auto
  next
    case False
    with Cons.prems have "dd_pairs s \<noteq> 0"
      by (cases s) (auto split: if_splits)
    with Cons.IH have IH: "Suc (dd_pairs (replace1 '';;'' ''; ;'' s)) = dd_pairs s"
      by simp
    let ?r = "replace1 '';;'' ''; ;'' s"
    let ?k = "if s \<noteq> [] \<and> a = CHR '';'' \<and> hd s = CHR '';'' then 1 else 0 :: nat"
    from False have "replace1 '';;'' ''; ;'' (a # s) = a # ?r"
      by (simp only: replace1.simps if_False)
    moreover have "dd_pairs (a # ?r) = ?k + dd_pairs ?r"
      by (simp only: dd_pairs_Cons [of a ?r] hd_replace1_dd replace1_dd_Nil)
    moreover have "dd_pairs (a # s) = ?k + dd_pairs s"
      by (rule dd_pairs_Cons)
    ultimately show ?thesis
      using IH by (simp only: add_Suc_right)
  qed
qed

text \<open>
  \<^verbatim>\<open>while argument_value.find(';;') != -1:
    argument_value = argument_value.replace(';;', '; ;', 1)\<close>
\<close>

function split_list_loop :: "string \<Rightarrow> string" where
  "split_list_loop argument_value =
     (if str_find argument_value '';;'' \<noteq> - 1
      then split_list_loop (replace1 '';;'' ''; ;'' argument_value)
      else argument_value)"
  by pat_completeness auto
termination
proof (relation "measure dd_pairs")
  fix argument_value
  assume "str_find argument_value '';;'' \<noteq> - 1"
  then have "dd_pairs argument_value \<noteq> 0"
    by (simp add: str_find_def find_from_none)
  then show "(replace1 '';;'' ''; ;'' argument_value, argument_value) \<in> measure dd_pairs"
    using dd_pairs_replace1 [of argument_value] by simp
qed simp

declare split_list_loop.simps [simp del]

text \<open>
  The same loop once more, this time without relying on its termination: a run
  that never leaves the loop has the value \<open>None\<close>.
\<close>

partial_function (option) split_list_while :: "string \<Rightarrow> string option" where
  "split_list_while argument_value =
     (if str_find argument_value '';;'' \<noteq> - 1
      then split_list_while (replace1 '';;'' ''; ;'' argument_value)
      else Some argument_value)"

section \<open>Argument\<close>

text \<open>
  The dataclass \<open>Argument\<close>, with the four attributes that \<open>__post_init__\<close> adds.
\<close>

record Argument =
  name :: string
  type :: string
  description :: string
  cli_arg :: string
  env_var :: "string option"
  default_value :: "string option"
  is_list :: bool
  list_type :: "string option"
  is_tuple :: bool
  tuple_types :: "string list option"

text \<open>
  \<^verbatim>\<open>re.match(r'list\[(.+)\]', type)\<close>: the type has to start with \<open>list[\<close>; \<open>.+\<close> is
  greedy and does not cross a newline, so group 1 runs up to the last \<open>]\<close> of the
  line and has to hold at least one character. The result is group 1.
\<close>

definition list_match :: "string \<Rightarrow> string option" where
  "list_match t =
     (if prefix ''list['' t then
        (case dropWhile (\<lambda>c. c \<noteq> CHR '']'')
                (rev (takeWhile (\<lambda>c. c \<noteq> CHR 0x0A) (drop 5 t))) of
           [] \<Rightarrow> None
         | b # g \<Rightarrow> if g = [] then None else Some (rev g))
      else None)"

text \<open>
  \<^verbatim>\<open>re.search(r'tuple\[(.+?)\]', type)\<close>: the leftmost position at which \<open>tuple[\<close>
  starts and is followed by one character that is not a newline, then as few
  characters as possible (none of them a newline), then \<open>]\<close>. The result is group 1.
\<close>

definition tuple_match_here :: "string \<Rightarrow> string option" where
  "tuple_match_here t =
     (if prefix ''tuple['' t then
        (case drop 6 t of
           [] \<Rightarrow> None
         | x # xs \<Rightarrow>
             if x = CHR 0x0A then None
             else (let g = takeWhile (\<lambda>c. c \<noteq> CHR '']'' \<and> c \<noteq> CHR 0x0A) xs
                   in case drop (length g) xs of
                        [] \<Rightarrow> None
                      | d # ds \<Rightarrow> if d = CHR '']'' then Some (x # g) else None))
      else None)"

fun tuple_match :: "string \<Rightarrow> string option" where
  "tuple_match [] = None"
| "tuple_match (c # cs) =
     (case tuple_match_here (c # cs) of
        Some g \<Rightarrow> Some g
      | None \<Rightarrow> tuple_match cs)"

definition post_init :: "Argument \<Rightarrow> Argument" where
  "post_init self =
     (let self = self\<lparr>is_list := False, list_type := None,
                      is_tuple := False, tuple_types := None\<rparr>;
          self = (case list_match (type self) of
                    None \<Rightarrow> self
                  | Some g \<Rightarrow> self\<lparr>is_list := True, list_type := Some g\<rparr>);
          self = (case tuple_match (type self) of
                    None \<Rightarrow> self
                  | Some g \<Rightarrow>
                      self\<lparr>is_tuple := True,
                           tuple_types := Some (map strip (str_split g CHR '','')) \<rparr>)
      in self)"

text \<open>
  The generated \<open>__init__\<close> stores the six declared fields and calls
  \<open>__post_init__\<close>. Nothing in it raises: construction always yields a descriptor.
\<close>

definition Argument_init :: "string \<Rightarrow> string \<Rightarrow> string \<Rightarrow> string \<Rightarrow> string option
    \<Rightarrow> string option \<Rightarrow> Argument" where
  "Argument_init n t d c e dv =
     post_init \<lparr>name = n, type = t, description = d, cli_arg = c, env_var = e,
                default_value = dv, is_list = False, list_type = None,
                is_tuple = False, tuple_types = None\<rparr>"

section \<open>Splitting lists and tuples\<close>

definition arity_message :: "string \<Rightarrow> nat \<Rightarrow> nat \<Rightarrow> string \<Rightarrow> string" where
  "arity_message nm expected_number actual_number argument_value =
     ''Tuple '' @ nm @ '' expected '' @ str_of_nat expected_number @
     '' values and got '' @ str_of_nat actual_number @ '': '' @ argument_value @ ''.''"

definition parse_tuple :: "Argument \<Rightarrow> string \<Rightarrow> error + string list" where
  "parse_tuple argument argument_value =
     (case shlex_split argument_value of
        Inl e \<Rightarrow> Inl e
      | Inr ret_val \<Rightarrow>
          if length ret_val = 0 then Inr [[]]
          else (case tuple_types argument of
                  None \<Rightarrow> Inl (TypeError (''object of type '' @ squote ''NoneType'' @ '' has no len()''))
                | Some ts \<Rightarrow>
                    (let expected_number = length ts;
                         actual_number = length ret_val
                     in if actual_number \<noteq> expected_number then
                          Inl (RuntimeError (arity_message (name argument) expected_number
                                               actual_number argument_value))
                        else Inr ret_val)))"

definition split_list :: "Argument \<Rightarrow> string \<Rightarrow> error + string list" where
  "split_list argument argument_value =
     (if argument_value = [] then Inr [[]]
      else (let argument_value = '' '' @ argument_value @ '' '';
                argument_value = split_list_loop argument_value
            in shlex_tokens \<lparr>posix = False, whitespace = '';'', commenters = ''#''\<rparr>
                 StSpace argument_value))"

text \<open>The \<open>for\<close> loop of \<open>_parse_list\<close>, with \<open>ret_val\<close> as accumulator.\<close>

fun parse_list_loop :: "string list \<Rightarrow> string list \<Rightarrow> error + string list" where
  "parse_list_loop ret_val [] = Inr ret_val"
| "parse_list_loop ret_val (v # vs) =
     (case shlex_split v of
        Inl e \<Rightarrow> Inl e
      | Inr [] \<Rightarrow> parse_list_loop (ret_val @ [[]]) vs
      | Inr (p # ps) \<Rightarrow> parse_list_loop (ret_val @ [p]) vs)"

definition parse_list :: "Argument \<Rightarrow> string \<Rightarrow> error + string list" where
  "parse_list argument argument_value =
     (case split_list argument argument_value of
        Inl e \<Rightarrow> Inl e
      | Inr vs \<Rightarrow> parse_list_loop [] vs)"

text \<open>
  The \<open>for\<close> loop of \<open>_parse_list_of_tuples\<close>. Its two \<open>print\<close> calls write to the
  standard output and leave the result alone; they are not modelled.
\<close>

fun parse_list_of_tuples_loop :: "Argument \<Rightarrow> string list list \<Rightarrow> string list
    \<Rightarrow> error + string list list" where
  "parse_list_of_tuples_loop argument ret_val [] = Inr ret_val"
| "parse_list_of_tuples_loop argument ret_val (v # vs) =
     (case parse_tuple argument v of
        Inl e \<Rightarrow> Inl e
      | Inr parsed_value \<Rightarrow> parse_list_of_tuples_loop argument (ret_val @ [parsed_value]) vs)"

definition parse_list_of_tuples :: "Argument \<Rightarrow> string \<Rightarrow> error + string list list" where
  "parse_list_of_tuples argument argument_value =
     (case split_list argument argument_value of
        Inl e \<Rightarrow> Inl e
      | Inr vs \<Rightarrow> parse_list_of_tuples_loop argument [] vs)"

section \<open>Converters\<close>

text \<open>\<open>repr\<close> of a string: the quote is chosen, then each character is escaped.\<close>

definition hex_digit :: "nat \<Rightarrow> char" where
  "hex_digit n = ''0123456789abcdef'' ! n"

definition repr_char :: "char \<Rightarrow> char \<Rightarrow> string" where
  "repr_char quote c =
     (let n = (of_char c :: nat)
      in if c = quote \<or> c = CHR 0x5C then [CHR 0x5C, c]
         else if c = CHR 0x09 then [CHR 0x5C, CHR ''t'']
         else if c = CHR 0x0A then [CHR 0x5C, CHR ''n'']
         else if c = CHR 0x0D then [CHR 0x5C, CHR ''r'']
         else if n < 32 \<or> n = 127 \<or> (128 \<le> n \<and> n \<le> 160) \<or> n = 173 then
           [CHR 0x5C, CHR ''x'', hex_digit (n div 16), hex_digit (n mod 16)]
         else [c])"

definition repr_str :: "string \<Rightarrow> string" where
  "repr_str s =
     (let quote = (if CHR 0x27 \<in> set s \<and> CHR 0x22 \<notin> set s then CHR 0x22 else CHR 0x27)
      in [quote] @ concat (map (repr_char quote) s) @ [quote])"

fun join :: "string \<Rightarrow> string list \<Rightarrow> string" where
  "join sep [] = []"
| "join sep [x] = x"
| "join sep (x # y # ys) = x @ sep @ join sep (y # ys)"

fun repr :: "pyval \<Rightarrow> string" where
  "repr PNone = ''None''"
| "repr (PStr s) = repr_str s"
| "repr (PBool b) = (if b then ''True'' else ''False'')"
| "repr (PInt i) = str_of_int i"
| "repr (PList vs) = ''['' @ join '', '' (map repr vs) @ '']''"

text \<open>The built-in \<open>str\<close>: a string is returned as it is, any other value as its \<open>repr\<close>.\<close>

definition str :: "pyval \<Rightarrow> error + pyval" where
  "str v = Inr (PStr (case v of PStr s \<Rightarrow> s | _ \<Rightarrow> repr v))"

text \<open>
  The built-in \<open>int\<close> on a string: code points 133 and 160 count as spaces and every
  other code point from 128 on is invalid; then come optional spaces (9 to 13 and 32),
  an optional sign, decimal digits with single underscores between them, and optional
  spaces up to the end. The interpreter's configurable limit on the number of digits
  is not part of the model.
\<close>

definition c_isspace :: "char \<Rightarrow> bool" where
  "c_isspace c = (let n = (of_char c :: nat) in (9 \<le> n \<and> n \<le> 13) \<or> n = 32)"

definition isdigit :: "char \<Rightarrow> bool" where
  "isdigit c = (let n = (of_char c :: nat) in 48 \<le> n \<and> n \<le> 57)"

definition to_ascii :: "char \<Rightarrow> char" where
  "to_ascii c =
     (let n = (of_char c :: nat)
      in if n = 133 \<or> n = 160 then CHR '' '' else if 128 \<le> n then CHR ''?'' else c)"

fun doubled_underscore :: "string \<Rightarrow> bool" where
  "doubled_underscore (a # b # cs) =
     ((a = CHR ''_'' \<and> b = CHR ''_'') \<or> doubled_underscore (b # cs))"
| "doubled_underscore cs = False"

definition digits_value :: "string \<Rightarrow> int" where
  "digits_value ds =
     foldl (\<lambda>acc c. 10 * acc + (int (of_char c) - 48)) 0 (filter isdigit ds)"

definition int_of_str :: "string \<Rightarrow> error + int" where
  "int_of_str s =
     (let t = dropWhile c_isspace (map to_ascii s);
          (sign, body) = (case t of
                            [] \<Rightarrow> (1, [])
                          | c # cs \<Rightarrow>
                              if c = CHR ''+'' then (1, cs)
                              else if c = CHR ''-'' then (- 1, cs)
                              else (1, c # cs));
          ds = takeWhile (\<lambda>c. isdigit c \<or> c = CHR ''_'') body;
          rest = dropWhile (\<lambda>c. isdigit c \<or> c = CHR ''_'') body
      in if ds = [] \<or> hd ds = CHR ''_'' \<or> last ds = CHR ''_'' \<or> doubled_underscore ds
            \<or> \<not> list_all c_isspace rest
         then Inl (ValueError (''invalid literal for int() with base 10: '' @ repr_str s))
         else Inr (sign * digits_value ds))"

definition int_type_error :: "string \<Rightarrow> error" where
  "int_type_error tn =
     TypeError (''int() argument must be a string, a bytes-like object or a real number, not ''
                @ squote tn)"

fun int_conv :: "pyval \<Rightarrow> error + pyval" where
  "int_conv (PStr s) = (case int_of_str s of Inl e \<Rightarrow> Inl e | Inr i \<Rightarrow> Inr (PInt i))"
| "int_conv (PBool b) = Inr (PInt (if b then 1 else 0))"
| "int_conv (PInt i) = Inr (PInt i)"
| "int_conv PNone = Inl (int_type_error ''NoneType'')"
| "int_conv (PList vs) = Inl (int_type_error ''list'')"

text \<open>The built-in \<open>bool\<close>: the truth value of an object.\<close>

fun bool :: "pyval \<Rightarrow> bool" where
  "bool PNone = False"
| "bool (PStr s) = (s \<noteq> [])"
| "bool (PBool b) = b"
| "bool (PInt i) = (i \<noteq> 0)"
| "bool (PList vs) = (vs \<noteq> [])"

text \<open>
  \<open>value in ['0', 'False']\<close> compares with \<open>==\<close>; a string is equal to no value of
  another type, so the test is membership among values of \<open>pyval\<close>.
\<close>

definition str_to_bool :: "pyval \<Rightarrow> bool" where
  "str_to_bool v =
     (if v \<in> set [PStr ''0'', PStr ''False''] then False
      else if v \<in> set [PStr ''1'', PStr ''True''] then True
      else bool v)"

definition TYPES_MAPPING :: "string \<rightharpoonup> (pyval \<Rightarrow> error + pyval)" where
  "TYPES_MAPPING =
     map_of [(''str'', str),
             (''int'', int_conv),
             (''bool'', \<lambda>v. Inr (PBool (str_to_bool v))),
             (''switch'', \<lambda>v. Inr (PBool (str_to_bool v)))]"

text \<open>\<open>TYPES_MAPPING[k]\<close>, where the key may be \<open>None\<close>.\<close>

definition types_getitem :: "string option \<Rightarrow> error + (pyval \<Rightarrow> error + pyval)" where
  "types_getitem k =
     (case k of
        None \<Rightarrow> Inl (KeyError PNone)
      | Some t \<Rightarrow> (case TYPES_MAPPING t of None \<Rightarrow> Inl (KeyError (PStr t)) | Some conv \<Rightarrow> Inr conv))"

section \<open>The three passes of ArgumentsParser\<close>

text \<open>
  \<open>arguments_values\<close> is a dictionary from argument names to values; the environment
  maps variable names to strings. \<open>os.getenv\<close> returns \<open>None\<close> for an unset variable.
\<close>

type_synonym arguments_values = "string \<rightharpoonup> pyval"

type_synonym environ = "string \<rightharpoonup> string"

definition getenv :: "environ \<Rightarrow> string \<Rightarrow> pyval" where
  "getenv env k = (case env k of None \<Rightarrow> PNone | Some v \<Rightarrow> PStr v)"

text \<open>\<open>for argument in self.arguments: ...\<close>, stopping at the first exception.\<close>

fun for_each :: "('s \<Rightarrow> 'a \<Rightarrow> error + 's) \<Rightarrow> 'a list \<Rightarrow> 's \<Rightarrow> error + 's" where
  "for_each body [] s = Inr s"
| "for_each body (x # xs) s =
     (case body s x of Inl e \<Rightarrow> Inl e | Inr s' \<Rightarrow> for_each body xs s')"

definition fallback_values_body :: "environ \<Rightarrow> arguments_values \<Rightarrow> Argument
    \<Rightarrow> error + arguments_values" where
  "fallback_values_body env vals argument =
     (case vals (name argument) of
        None \<Rightarrow> Inl (KeyError (PStr (name argument)))
      | Some v \<Rightarrow>
          (let vals1 = (case env_var argument of
                          None \<Rightarrow> vals
                        | Some ev \<Rightarrow>
                            if v = PNone then vals(name argument \<mapsto> getenv env ev) else vals)
           in case vals1 (name argument) of
                None \<Rightarrow> Inl (KeyError (PStr (name argument)))
              | Some v1 \<Rightarrow>
                  (case default_value argument of
                     None \<Rightarrow> Inr vals1
                   | Some dv \<Rightarrow>
                       if v1 = PNone then Inr (vals1(name argument \<mapsto> PStr dv))
                       else Inr vals1)))"

definition fallback_values :: "environ \<Rightarrow> Argument list \<Rightarrow> arguments_values
    \<Rightarrow> error + arguments_values" where
  "fallback_values env arguments vals = for_each (fallback_values_body env) arguments vals"

definition calculate_lists_and_tuples_body :: "arguments_values \<Rightarrow> Argument
    \<Rightarrow> error + arguments_values" where
  "calculate_lists_and_tuples_body vals argument =
     (case vals (name argument) of
        None \<Rightarrow> Inl (KeyError (PStr (name argument)))
      | Some argument_value \<Rightarrow>
          if \<not> is_list argument \<and> \<not> is_tuple argument then Inr vals
          else (case argument_value of
                  PStr sv \<Rightarrow>
                    if is_list argument \<and> \<not> is_tuple argument then
                      (case parse_list argument sv of
                         Inl e \<Rightarrow> Inl e
                       | Inr r \<Rightarrow> Inr (vals(name argument \<mapsto> PList (map PStr r))))
                    else if \<not> is_list argument \<and> is_tuple argument then
                      (case parse_tuple argument sv of
                         Inl e \<Rightarrow> Inl e
                       | Inr r \<Rightarrow> Inr (vals(name argument \<mapsto> PList (map PStr r))))
                    else
                      (case parse_list_of_tuples argument sv of
                         Inl e \<Rightarrow> Inl e
                       | Inr r \<Rightarrow>
                           Inr (vals(name argument \<mapsto> PList (map (\<lambda>t. PList (map PStr t)) r))))
                | _ \<Rightarrow> Inr vals))"

definition calculate_lists_and_tuples :: "Argument list \<Rightarrow> arguments_values
    \<Rightarrow> error + arguments_values" where
  "calculate_lists_and_tuples arguments vals =
     for_each calculate_lists_and_tuples_body arguments vals"

text \<open>Iteration over a value: a list yields its elements, a string its characters.\<close>

definition not_iterable :: "string \<Rightarrow> error" where
  "not_iterable tn = TypeError (squote tn @ '' object is not iterable'')"

fun iter :: "pyval \<Rightarrow> error + pyval list" where
  "iter (PList vs) = Inr vs"
| "iter (PStr s) = Inr (map (\<lambda>c. PStr [c]) s)"
| "iter PNone = Inl (not_iterable ''NoneType'')"
| "iter (PBool b) = Inl (not_iterable ''bool'')"
| "iter (PInt i) = Inl (not_iterable ''int'')"

text \<open>\<open>converters = [self.TYPES_MAPPING[x] for x in argument.tuple_types]\<close>\<close>

definition tuple_converters :: "Argument \<Rightarrow> error + (pyval \<Rightarrow> error + pyval) list" where
  "tuple_converters argument =
     (case tuple_types argument of
        None \<Rightarrow> Inl (not_iterable ''NoneType'')
      | Some ts \<Rightarrow> mapM (\<lambda>x. types_getitem (Some x)) ts)"

text \<open>\<open>[conv(value) for conv, value in zip(converters, v)]\<close>\<close>

definition convert_tuple :: "(pyval \<Rightarrow> error + pyval) list \<Rightarrow> pyval \<Rightarrow> error + pyval" where
  "convert_tuple converters v =
     (case iter v of
        Inl e \<Rightarrow> Inl e
      | Inr vs \<Rightarrow>
          (case mapM (\<lambda>(conv, x). conv x) (zip converters vs) of
             Inl e \<Rightarrow> Inl e
           | Inr r \<Rightarrow> Inr (PList r)))"

text \<open>The four branches of \<open>_convert_values\<close> for a value that is not \<open>None\<close>.\<close>

definition convert_value :: "Argument \<Rightarrow> pyval \<Rightarrow> error + pyval" where
  "convert_value argument argument_value =
     (if is_list argument \<and> \<not> is_tuple argument then
        (case iter argument_value of
           Inl e \<Rightarrow> Inl e
         | Inr vs \<Rightarrow>
             (case mapM (\<lambda>x. case types_getitem (list_type argument) of
                                Inl e \<Rightarrow> Inl e
                              | Inr conv \<Rightarrow> conv x) vs of
                Inl e \<Rightarrow> Inl e
              | Inr r \<Rightarrow> Inr (PList r)))
      else if \<not> is_list argument \<and> is_tuple argument then
        (case tuple_converters argument of
           Inl e \<Rightarrow> Inl e
         | Inr converters \<Rightarrow> convert_tuple converters argument_value)
      else if is_list argument \<and> is_tuple argument then
        (case tuple_converters argument of
           Inl e \<Rightarrow> Inl e
         | Inr converters \<Rightarrow>
             (case iter argument_value of
                Inl e \<Rightarrow> Inl e
              | Inr vs \<Rightarrow>
                  (case mapM (convert_tuple converters) vs of
                     Inl e \<Rightarrow> Inl e
                   | Inr r \<Rightarrow> Inr (PList r))))
      else
        (case types_getitem (Some (type argument)) of
           Inl e \<Rightarrow> Inl e
         | Inr conv \<Rightarrow> conv argument_value))"

definition convert_values_body :: "arguments_values \<Rightarrow> Argument \<Rightarrow> error + arguments_values" where
  "convert_values_body vals argument =
     (case vals (name argument) of
        None \<Rightarrow> Inl (KeyError (PStr (name argument)))
      | Some argument_value \<Rightarrow>
          if argument_value = PNone then Inr vals
          else (case convert_value argument argument_value of
                  Inl e \<Rightarrow> Inl e
                | Inr r \<Rightarrow> Inr (vals(name argument \<mapsto> r))))"

definition convert_values :: "Argument list \<Rightarrow> arguments_values \<Rightarrow> error + arguments_values" where
  "convert_values arguments vals = for_each convert_values_body arguments vals"

text \<open>
  \<open>ArgumentsParser.__init__\<close>, from the point at which the descriptors have been
  built and the command line has been read into \<open>arguments_values\<close>: the three passes
  in their order, the first exception ending the run.
\<close>

definition ArgumentsParser_init :: "environ \<Rightarrow> Argument list \<Rightarrow> arguments_values
    \<Rightarrow> error + arguments_values" where
  "ArgumentsParser_init env arguments vals =
     (case fallback_values env arguments vals of
        Inl e \<Rightarrow> Inl e
      | Inr vals1 \<Rightarrow>
          (case calculate_lists_and_tuples arguments vals1 of
             Inl e \<Rightarrow> Inl e
           | Inr vals2 \<Rightarrow> convert_values arguments vals2))"

section \<open>Reference descriptions\<close>

text \<open>
  The two definitions of this section are not translations of the source: each one
  writes down, in the words of the specification, what a function of the source is
  said to compute. The theorems below compare the source with them.
\<close>


text \<open>
  The value of one list element: the element is shell-tokenized and its first token
  is kept; an element without tokens becomes the empty string.
\<close>

definition first_token :: "string \<Rightarrow> error + string" where
  "first_token v =
     (case shlex_split v of
        Inl e \<Rightarrow> Inl e
      | Inr [] \<Rightarrow> Inr []
      | Inr (p # ps) \<Rightarrow> Inr p)"

section \<open>Evaluation and loop lemmas\<close>

lemmas lex_simps = shlex_tokens.simps shlex_split_def emit_def quotes_def escape_def
  escapedquotes_def readline_def

lemmas split_simps = parse_list_def split_list_def split_list_loop.simps str_find_def

lemma split_list_while_total: "split_list_while v = Some (split_list_loop v)"
proof (induction v rule: split_list_loop.induct)
  case (1 v)
  show ?case
  proof (cases "str_find v '';;'' \<noteq> - 1")
    case True
    with 1 show ?thesis
      by (subst split_list_while.simps, subst split_list_loop.simps) simp
  next
    case False
    then show ?thesis
      by (subst split_list_while.simps, subst split_list_loop.simps) simp
  qed
qed

lemma split_list_loop_exit: "str_find (split_list_loop v) '';;'' = - 1"
proof (induction v rule: split_list_loop.induct)
  case (1 v)
  then show ?case
    by (subst split_list_loop.simps) simp
qed

lemma parse_list_loop_mapM:
  "parse_list_loop acc vs =
     (case mapM first_token vs of Inl e \<Rightarrow> Inl e | Inr r \<Rightarrow> Inr (acc @ r))"
proof (induction vs arbitrary: acc)
  case Nil
  then show ?case by simp
next
  case (Cons v vs)
  show ?case
  proof (cases "shlex_split v")
    case (Inl e)
    then show ?thesis by (simp add: first_token_def)
  next
    case (Inr toks)
    then show ?thesis
      by (cases toks) (simp_all add: first_token_def Cons.IH split: sum.split)
  qed
qed

lemma parse_list_of_tuples_loop_mapM:
  "parse_list_of_tuples_loop a acc vs =
     (case mapM (parse_tuple a) vs of Inl e \<Rightarrow> Inl e | Inr r \<Rightarrow> Inr (acc @ r))"
proof (induction vs arbitrary: acc)
  case Nil
  then show ?case by simp
next
  case (Cons v vs)
  then show ?case
    by (cases "parse_tuple a v") (simp_all split: sum.split)
qed

lemmas descriptor_simps = Argument_init_def post_init_def list_match_def tuple_match_here_def
  str_split_def strip_def isspace_def Let_def

lemmas convert_simps = convert_value_def tuple_converters_def convert_tuple_def
  types_getitem_def TYPES_MAPPING_def int_of_str_def c_isspace_def isdigit_def to_ascii_def
  digits_value_def str_def str_to_bool_def

lemmas pass_simps = ArgumentsParser_init_def fallback_values_def fallback_values_body_def
  calculate_lists_and_tuples_def calculate_lists_and_tuples_body_def
  convert_values_def convert_values_body_def

lemma str_of_nat_small: "str_of_nat (Suc (Suc 0)) = ''2''" "str_of_nat (Suc 0) = ''1''"
  by (simp_all add: str_of_nat.simps)

lemma name_Argument_init: "name (Argument_init n t d c e dv) = n"
  by (simp add: Argument_init_def post_init_def Let_def split: option.split)



lemma descriptor_list_of_tuples:
  "Argument_init n ''list[tuple[int,int]]'' d c e dv =
     \<lparr>name = n, type = ''list[tuple[int,int]]'', description = d, cli_arg = c, env_var = e,
      default_value = dv, is_list = True, list_type = Some ''tuple[int,int]'',
      is_tuple = True, tuple_types = Some [''int'', ''int'']\<rparr>"
  by (simp add: descriptor_simps)

lemma descriptor_tuple_int_str:
  "Argument_init n ''tuple[int,str]'' d c e dv =
     \<lparr>name = n, type = ''tuple[int,str]'', description = d, cli_arg = c, env_var = e,
      default_value = dv, is_list = False, list_type = None,
      is_tuple = True, tuple_types = Some [''int'', ''str'']\<rparr>"
  by (simp add: descriptor_simps)

lemma descriptor_tuple_str_str:
  "Argument_init n ''tuple[str,str]'' d c e dv =
     \<lparr>name = n, type = ''tuple[str,str]'', description = d, cli_arg = c, env_var = e,
      default_value = dv, is_list = False, list_type = None,
      is_tuple = True, tuple_types = Some [''str'', ''str'']\<rparr>"
  by (simp add: descriptor_simps)

lemma descriptor_list_foo:
  "Argument_init n ''list[foo]'' d c e dv =
     \<lparr>name = n, type = ''list[foo]'', description = d, cli_arg = c, env_var = e,
      default_value = dv, is_list = True, list_type = Some ''foo'',
      is_tuple = False, tuple_types = None\<rparr>"
  by (simp add: descriptor_simps)

lemma parse_tuple_blank: "parse_tuple a [] = Inr [[]]" "parse_tuple a '' '' = Inr [[]]"
  by (simp_all add: parse_tuple_def lex_simps)

lemma parse_tuple_cases:
  assumes "tuple_types a = Some ts" and "shlex_split v = Inr toks"
  shows "parse_tuple a v =
     (if toks = [] then Inr [[]]
      else if length toks \<noteq> length ts then
        Inl (RuntimeError (arity_message (name a) (length ts) (length toks) v))
      else Inr toks)"
  using assms by (simp add: parse_tuple_def)



lemma list_match_descriptor:
  assumes "list_match t = Some inner"
  shows "is_list (Argument_init n t d c e dv)
     \<and> list_type (Argument_init n t d c e dv) = Some inner
     \<and> is_tuple (Argument_init n t d c e dv) = (tuple_match t \<noteq> None)"
  using assms by (simp add: Argument_init_def post_init_def Let_def split: option.split)

lemma convert_unknown_list_type:
  assumes "is_list a" "\<not> is_tuple a" "list_type a = Some inner" "TYPES_MAPPING inner = None"
  shows "convert_value a (PList (x # xs)) = Inl (KeyError (PStr inner))"
    and "convert_value a (PList []) = Inr (PList [])"
  using assms by (simp_all add: convert_value_def types_getitem_def)

section \<open>The doubled-delimiter loop terminates\<close>

text \<open>
  Claim C10. The loop of \<open>_split_list\<close> that replaces the first \<open>;;\<close> by \<open>; ;\<close> while
  an occurrence remains terminates for every input string: the loop, run without
  any assumption on its termination, returns a string, that string holds no \<open>;;\<close>,
  and each replacement strictly decreases the number of adjacent delimiter pairs.
\<close>

theorem split_list_loop_terminates:
  "split_list_while v = Some (split_list_loop v)
   \<and> str_find (split_list_loop v) '';;'' = - 1
   \<and> (str_find v '';;'' \<noteq> - 1 \<longrightarrow>
        dd_pairs (replace1 '';;'' ''; ;'' v) < dd_pairs v)"
proof -
  have "dd_pairs (replace1 '';;'' ''; ;'' v) < dd_pairs v" if "str_find v '';;'' \<noteq> - 1"
  proof -
    from that have "dd_pairs v \<noteq> 0"
      by (simp add: str_find_def find_from_none)
    then show ?thesis
      using dd_pairs_replace1 [of v] by simp
  qed
  then show ?thesis
    by (simp add: split_list_while_total split_list_loop_exit)
qed

theorem split_list_loop_terminates_witness:
  "str_find '';;;'' '';;'' \<noteq> - 1
   \<and> dd_pairs (replace1 '';;'' ''; ;'' '';;;'') < dd_pairs '';;;''
   \<and> split_list_while '';;;'' = Some ''; ; ;''"
  using split_list_loop_terminates [of "'';;;''"]
  by (simp add: str_find_def split_list_loop.simps)

section \<open>Lists keep the first token of each element\<close>

text \<open>
  Claim C9. For a list-shaped argument that is not a tuple, each element-string
  that list splitting yields is itself shell-tokenized and only its first token is
  kept, an element without tokens becoming the empty string; the raw input
  \<open>a b;c\<close> gives the two elements \<open>a\<close> and \<open>c\<close>, and \<open>b\<close> is dropped.
\<close>

theorem parse_list_first_token:
  "parse_list a v =
     (case split_list a v of Inl e \<Rightarrow> Inl e | Inr vs \<Rightarrow> mapM first_token vs)
   \<and> parse_list a ''a b;c'' = Inr [''a'', ''c'']"
proof -
  have "parse_list a v =
     (case split_list a v of Inl e \<Rightarrow> Inl e | Inr vs \<Rightarrow> mapM first_token vs)"
    by (simp add: parse_list_def parse_list_loop_mapM split: sum.split)
  moreover have "parse_list a ''a b;c'' = Inr [''a'', ''c'']"
    by (simp add: split_simps lex_simps)
  ultimately show ?thesis by simp
qed

section \<open>The boolean converter\<close>

text \<open>
  Claim C5. The converter of the kinds \<open>bool\<close> and \<open>switch\<close> is \<open>str_to_bool\<close>. It
  maps the strings \<open>0\<close> and \<open>False\<close> to false, \<open>1\<close> and \<open>True\<close> to true, every other
  string that is not empty (such as \<open>yes\<close>, and also \<open>false\<close>, the match being
  case-sensitive) to true, and the empty string to false.
\<close>

theorem str_to_bool_table:
  "str_to_bool (PStr ''0'') = False \<and> str_to_bool (PStr ''False'') = False
   \<and> str_to_bool (PStr ''1'') = True \<and> str_to_bool (PStr ''True'') = True
   \<and> str_to_bool (PStr ''yes'') = True \<and> str_to_bool (PStr []) = False
   \<and> str_to_bool (PStr ''false'') = True
   \<and> str_to_bool (PStr s) = (s \<noteq> ''0'' \<and> s \<noteq> ''False'' \<and> s \<noteq> [])
   \<and> TYPES_MAPPING ''bool'' = Some (\<lambda>v. Inr (PBool (str_to_bool v)))
   \<and> TYPES_MAPPING ''switch'' = Some (\<lambda>v. Inr (PBool (str_to_bool v)))"
  by (auto simp: str_to_bool_def TYPES_MAPPING_def)

section \<open>Splitting a list on the delimiter\<close>

text \<open>
  Claim C6. For a list-shaped argument the raw input \<open>a;b;c\<close> yields exactly the three
  elements \<open>a\<close>, \<open>b\<close> and \<open>c\<close>, and the empty raw string yields one element, the
  empty string, not an empty sequence.
\<close>

theorem parse_list_splits:
  "parse_list a ''a;b;c'' = Inr [''a'', ''b'', ''c'']
   \<and> split_list a [] = Inr [[]]
   \<and> parse_list a [] = Inr [[]]"
  by (simp add: split_simps lex_simps)

text \<open>
  Claim C1 says that the raw input \<open>a;;b\<close> yields the two elements \<open>a\<close> and \<open>b\<close>.
  It does not: the blank that the rewrite puts between the two delimiters is an
  element of its own, and it becomes the empty string.
\<close>

theorem parse_list_doubled_counterexample:
  "parse_list (Argument_init ''x'' ''list[str]'' [] ''--x'' None None) ''a;;b''
     = Inr [''a'', [], ''b'']
   \<and> parse_list (Argument_init ''x'' ''list[str]'' [] ''--x'' None None) ''a;;b''
     \<noteq> Inr [''a'', ''b'']"
  by (simp add: split_simps lex_simps)

text \<open>
  Claim C1, amended. For a list-shaped argument the raw input \<open>a;;b\<close> yields exactly
  the three elements \<open>a\<close>, the empty string and \<open>b\<close> (and no element holding a
  semicolon): the doubled delimiter is rewritten to \<open>; ;\<close> before tokenizing, and the
  blank between the two delimiters is tokenized as an element.
\<close>

theorem parse_list_doubled:
  "split_list_loop '' a;;b '' = '' a; ;b ''
   \<and> split_list a ''a;;b'' = Inr ['' a'', '' '', ''b '']
   \<and> parse_list a ''a;;b'' = Inr [''a'', [], ''b'']"
  by (simp add: split_simps lex_simps)

section \<open>Lists of tuples\<close>

text \<open>
  Claim C7. For a \<open>list[tuple[...]]\<close> argument the raw string is first list-split on
  the delimiter, and tuple splitting is then applied to each element-string on its
  own, the first failure ending the run; the descriptor \<open>list[tuple[int,int]]\<close> with
  the raw input \<open>1 2;3 4\<close> resolves to \<open>[[1, 2], [3, 4]]\<close>, and with \<open>1 2;3\<close> the
  arity error of the second element is the result.
\<close>

theorem parse_list_of_tuples_composition:
  "parse_list_of_tuples a v =
     (case split_list a v of Inl e \<Rightarrow> Inl e | Inr vs \<Rightarrow> mapM (parse_tuple a) vs)
   \<and> ArgumentsParser_init env [Argument_init ''x'' ''list[tuple[int,int]]'' d c None None]
        [''x'' \<mapsto> PStr ''1 2;3 4'']
      = Inr [''x'' \<mapsto> PList [PList [PInt 1, PInt 2], PList [PInt 3, PInt 4]]]
   \<and> ArgumentsParser_init env [Argument_init ''x'' ''list[tuple[int,int]]'' d c None None]
        [''x'' \<mapsto> PStr ''1 2;3'']
      = Inl (RuntimeError ''Tuple x expected 2 values and got 1: 3 .'')"
proof -
  have "parse_list_of_tuples a v =
     (case split_list a v of Inl e \<Rightarrow> Inl e | Inr vs \<Rightarrow> mapM (parse_tuple a) vs)"
    by (simp add: parse_list_of_tuples_def parse_list_of_tuples_loop_mapM split: sum.split)
  moreover have "ArgumentsParser_init env
        [Argument_init ''x'' ''list[tuple[int,int]]'' d c None None]
        [''x'' \<mapsto> PStr ''1 2;3 4'']
      = Inr [''x'' \<mapsto> PList [PList [PInt 1, PInt 2], PList [PInt 3, PInt 4]]]"
    by (simp add: descriptor_list_of_tuples pass_simps parse_list_of_tuples_def parse_tuple_def
          split_simps lex_simps convert_simps)
  moreover have "ArgumentsParser_init env
        [Argument_init ''x'' ''list[tuple[int,int]]'' d c None None]
        [''x'' \<mapsto> PStr ''1 2;3'']
      = Inl (RuntimeError ''Tuple x expected 2 values and got 1: 3 .'')"
    by (simp add: descriptor_list_of_tuples pass_simps parse_list_of_tuples_def parse_tuple_def
          split_simps lex_simps arity_message_def str_of_nat_small)
  ultimately show ?thesis by simp
qed

section \<open>Tuple arity\<close>

text \<open>
  Claim C2 says that for every raw string that is not empty, tuple splitting fails
  with the arity error exactly when the number of shell tokens differs from the
  declared arity. The raw string of one blank is not empty and has no token, the
  arity is two, and tuple splitting returns \<open>['']\<close>.
\<close>

theorem parse_tuple_blank_counterexample:
  "tuple_types (Argument_init ''x'' ''tuple[int,str]'' [] ''--x'' None None)
     = Some [''int'', ''str'']
   \<and> shlex_split '' '' = Inr []
   \<and> parse_tuple (Argument_init ''x'' ''tuple[int,str]'' [] ''--x'' None None) '' ''
     = Inr [[]]"
  by (simp add: descriptor_tuple_int_str parse_tuple_blank) (simp add: lex_simps)

text \<open>
  Claim C2, amended. For a tuple-shaped argument and a raw string that shell-splits
  to at least one token, tuple splitting fails exactly when the number of tokens
  differs from the declared arity, with a \<open>RuntimeError\<close> whose message names the
  argument, the expected count, the actual count and the raw string; a raw string
  that shell-splits to no token yields \<open>['']\<close> without an arity check. The descriptor
  \<open>tuple[int,str]\<close> resolves the raw input \<open>5 hello\<close> to \<open>[5, 'hello']\<close> and fails on
  \<open>5\<close> (expected 2, got 1).
\<close>

theorem parse_tuple_arity:
  assumes "tuple_types a = Some ts" and "shlex_split v = Inr toks"
  shows "parse_tuple a v =
           (if toks = [] then Inr [[]]
            else if length toks \<noteq> length ts then
              Inl (RuntimeError (''Tuple '' @ name a @ '' expected '' @ str_of_nat (length ts)
                     @ '' values and got '' @ str_of_nat (length toks) @ '': '' @ v @ ''.''))
            else Inr toks)
   \<and> ArgumentsParser_init env [Argument_init ''x'' ''tuple[int,str]'' d c None None]
        [''x'' \<mapsto> PStr ''5 hello'']
      = Inr [''x'' \<mapsto> PList [PInt 5, PStr ''hello'']]
   \<and> ArgumentsParser_init env [Argument_init ''x'' ''tuple[int,str]'' d c None None]
        [''x'' \<mapsto> PStr ''5'']
      = Inl (RuntimeError ''Tuple x expected 2 values and got 1: 5.'')"
proof -
  have "ArgumentsParser_init env [Argument_init ''x'' ''tuple[int,str]'' d c None None]
        [''x'' \<mapsto> PStr ''5 hello'']
      = Inr [''x'' \<mapsto> PList [PInt 5, PStr ''hello'']]"
    by (simp add: descriptor_tuple_int_str pass_simps parse_tuple_def lex_simps convert_simps)
  moreover have "ArgumentsParser_init env
        [Argument_init ''x'' ''tuple[int,str]'' d c None None] [''x'' \<mapsto> PStr ''5'']
      = Inl (RuntimeError ''Tuple x expected 2 values and got 1: 5.'')"
    by (simp add: descriptor_tuple_int_str pass_simps parse_tuple_def lex_simps
          arity_message_def str_of_nat_small)
  ultimately show ?thesis
    using parse_tuple_cases [OF assms] by (simp add: arity_message_def)
qed

theorem parse_tuple_arity_witness:
  "tuple_types (Argument_init ''x'' ''tuple[int,str]'' [] ''--x'' None None)
     = Some [''int'', ''str'']
   \<and> shlex_split ''5'' = Inr [''5'']
   \<and> parse_tuple (Argument_init ''x'' ''tuple[int,str]'' [] ''--x'' None None) ''5''
     = Inl (RuntimeError ''Tuple x expected 2 values and got 1: 5.'')"
proof -
  let ?a = "Argument_init ''x'' ''tuple[int,str]'' [] ''--x'' None None"
  have h1: "tuple_types ?a = Some [''int'', ''str'']"
    by (simp add: descriptor_tuple_int_str)
  have h2: "shlex_split ''5'' = Inr [''5'']"
    by (simp add: lex_simps)
  from parse_tuple_arity [OF h1 h2] have
    "parse_tuple ?a ''5'' = Inl (RuntimeError ''Tuple x expected 2 values and got 1: 5.'')"
    by (simp add: name_Argument_init str_of_nat_small)
  with h1 h2 show ?thesis by simp
qed

text \<open>
  Claim C3 says that the single empty string that tuple splitting yields for the
  empty raw string then fails the arity check whenever the arity is not one. For
  \<open>tuple[str,str]\<close> nothing fails: the run ends with the value \<open>['']\<close>.
\<close>

theorem parse_tuple_empty_counterexample:
  "tuple_types (Argument_init ''x'' ''tuple[str,str]'' [] ''--x'' None None)
     = Some [''str'', ''str'']
   \<and> parse_tuple (Argument_init ''x'' ''tuple[str,str]'' [] ''--x'' None None) [] = Inr [[]]
   \<and> ArgumentsParser_init Map.empty
        [Argument_init ''x'' ''tuple[str,str]'' [] ''--x'' None None] [''x'' \<mapsto> PStr []]
      = Inr [''x'' \<mapsto> PList [PStr []]]"
  by (simp add: descriptor_tuple_str_str pass_simps parse_tuple_blank convert_simps)

text \<open>
  Claim C3, amended. For every tuple-shaped argument, tuple splitting of the empty
  raw string yields a single-element sequence containing one empty string, and
  returns it before the arity check, whatever the declared arity.
\<close>

theorem parse_tuple_empty:
  "shlex_split [] = Inr [] \<and> parse_tuple a [] = Inr [[]]"
  by (simp add: parse_tuple_blank) (simp add: lex_simps)

section \<open>The fallback chain\<close>



section \<open>Descriptors of lists\<close>

text \<open>
  Claim C8 says that a descriptor of type \<open>list[<inner>]\<close> with an unknown
  \<open>inner\<close> cannot be constructed. The descriptor of type \<open>list[foo]\<close> is constructed;
  with no value the run ends without any error, and with a value it fails only in
  \<open>_convert_values\<close>, with a \<open>KeyError\<close>.
\<close>

theorem list_unknown_inner_counterexample:
  "Argument_init ''x'' ''list[foo]'' [] ''--x'' None None =
     \<lparr>name = ''x'', type = ''list[foo]'', description = [], cli_arg = ''--x'',
      env_var = None, default_value = None, is_list = True, list_type = Some ''foo'',
      is_tuple = False, tuple_types = None\<rparr>
   \<and> TYPES_MAPPING ''foo'' = None
   \<and> ArgumentsParser_init Map.empty [Argument_init ''x'' ''list[foo]'' [] ''--x'' None None]
        [''x'' \<mapsto> PNone] = Inr [''x'' \<mapsto> PNone]
   \<and> ArgumentsParser_init Map.empty [Argument_init ''x'' ''list[foo]'' [] ''--x'' None None]
        [''x'' \<mapsto> PStr ''a''] = Inl (KeyError (PStr ''foo''))"
proof -
  have "ArgumentsParser_init Map.empty [Argument_init ''x'' ''list[foo]'' [] ''--x'' None None]
        [''x'' \<mapsto> PStr ''a''] = Inl (KeyError (PStr ''foo''))"
    by (simp add: descriptor_list_foo pass_simps split_simps lex_simps convert_value_def
          types_getitem_def TYPES_MAPPING_def)
  moreover have "ArgumentsParser_init Map.empty
        [Argument_init ''x'' ''list[foo]'' [] ''--x'' None None]
        [''x'' \<mapsto> PNone] = Inr [''x'' \<mapsto> PNone]"
    by (simp add: descriptor_list_foo pass_simps)
  ultimately show ?thesis
    by (simp add: descriptor_list_foo TYPES_MAPPING_def)
qed

text \<open>
  Claim C8, amended. For every type string that matches \<open>list[<inner>]\<close> (and holds
  no tuple), construction yields a descriptor with \<open>is_list\<close> set and \<open>list_type\<close>
  equal to \<open>inner\<close>, also when \<open>inner\<close> is not a known scalar kind. In that case the
  conversion of a list that is not empty fails with \<open>KeyError\<close> at its first element,
  while the empty list and an absent value are converted without any error.
\<close>

theorem list_descriptor_unchecked:
  assumes "list_match t = Some inner"
    and "tuple_match t = None"
    and "TYPES_MAPPING inner = None"
  shows "is_list (Argument_init n t d c e dv)
     \<and> list_type (Argument_init n t d c e dv) = Some inner
     \<and> convert_value (Argument_init n t d c e dv) (PList (x # xs)) = Inl (KeyError (PStr inner))
     \<and> convert_value (Argument_init n t d c e dv) (PList []) = Inr (PList [])
     \<and> convert_values [Argument_init n t d c e dv] [n \<mapsto> PNone] = Inr [n \<mapsto> PNone]"
proof -
  let ?a = "Argument_init n t d c e dv"
  from list_match_descriptor [OF assms(1), of n d c e dv] assms(2)
  have shape: "is_list ?a" "list_type ?a = Some inner" "\<not> is_tuple ?a"
    by simp_all
  moreover have "convert_value ?a (PList (x # xs)) = Inl (KeyError (PStr inner))"
    using shape assms(3) by (simp add: convert_unknown_list_type(1))
  moreover have "convert_value ?a (PList []) = Inr (PList [])"
    using shape assms(3) by (simp add: convert_unknown_list_type(2))
  moreover have "convert_values [?a] [n \<mapsto> PNone] = Inr [n \<mapsto> PNone]"
    by (simp add: convert_values_def convert_values_body_def name_Argument_init)
  ultimately show ?thesis by simp
qed

theorem list_descriptor_unchecked_witness:
  "list_match ''list[foo]'' = Some ''foo'' \<and> tuple_match ''list[foo]'' = None
   \<and> TYPES_MAPPING ''foo'' = None
   \<and> is_list (Argument_init ''x'' ''list[foo]'' [] ''--x'' None None)
   \<and> convert_value (Argument_init ''x'' ''list[foo]'' [] ''--x'' None None) (PList [PStr ''a''])
       = Inl (KeyError (PStr ''foo''))"
proof -
  have h1: "list_match ''list[foo]'' = Some ''foo''"
    by (simp add: list_match_def)
  have h2: "tuple_match ''list[foo]'' = None"
    by (simp add: tuple_match_here_def)
  have h3: "TYPES_MAPPING ''foo'' = None"
    by (simp add: TYPES_MAPPING_def)
  from list_descriptor_unchecked [OF h1 h2 h3, of "''x''" "[]" "''--x''" None None "PStr ''a''" "[]"]
  show ?thesis
    using h1 h2 h3 by simp
qed

end
